theory Spec2Isabelle
  imports Complex_Main
begin

section \<open>Python numbers\<close>

text \<open>
  The program computes with Python floats. A float is modelled as a finite real number,
  one of the two infinities, or NaN. Arithmetic on finite values is exact real arithmetic:
  rounding, overflow to infinity and the sign of zero are not modelled. The special values
  follow IEEE 754 and the \<^verbatim>\<open>math\<close> module: \<^verbatim>\<open>math.sin\<close>, \<^verbatim>\<open>math.cos\<close>,
  \<^verbatim>\<open>math.sqrt\<close> and \<^verbatim>\<open>math.asin\<close> raise \<^verbatim>\<open>ValueError\<close> outside their domain and
  pass NaN through; every comparison with NaN is false.
\<close>

datatype pyfloat = Fin real | PInf | NInf | NaN

text \<open>
  The exceptions of the program: \<^verbatim>\<open>ValueError\<close> is the "math domain error" of the
  \<^verbatim>\<open>math\<close> module; \<open>ModelError\<close> stands for any exception that the scaler or the
  classifier raises.
\<close>

datatype error = ValueError | ModelError

text \<open>\<^verbatim>\<open>math.radians(x)\<close>\<close>

fun radians :: "pyfloat \<Rightarrow> pyfloat" where
  "radians (Fin x) = Fin (x * pi / 180)"
| "radians PInf = PInf"
| "radians NInf = NInf"
| "radians NaN = NaN"

text \<open>\<^verbatim>\<open>x - y\<close>\<close>

fun py_sub :: "pyfloat \<Rightarrow> pyfloat \<Rightarrow> pyfloat" where
  "py_sub (Fin x) (Fin y) = Fin (x - y)"
| "py_sub NaN y = NaN"
| "py_sub x NaN = NaN"
| "py_sub PInf PInf = NaN"
| "py_sub NInf NInf = NaN"
| "py_sub PInf y = PInf"
| "py_sub NInf y = NInf"
| "py_sub (Fin x) PInf = NInf"
| "py_sub (Fin x) NInf = PInf"

text \<open>\<^verbatim>\<open>x + y\<close>\<close>

fun py_add :: "pyfloat \<Rightarrow> pyfloat \<Rightarrow> pyfloat" where
  "py_add (Fin x) (Fin y) = Fin (x + y)"
| "py_add NaN y = NaN"
| "py_add x NaN = NaN"
| "py_add PInf NInf = NaN"
| "py_add NInf PInf = NaN"
| "py_add PInf y = PInf"
| "py_add NInf y = NInf"
| "py_add (Fin x) PInf = PInf"
| "py_add (Fin x) NInf = NInf"

text \<open>\<^verbatim>\<open>x * y\<close>\<close>

fun inf_times :: "bool \<Rightarrow> real \<Rightarrow> pyfloat" where
  "inf_times pos y =
     (if y = 0 then NaN else if (0 < y) = pos then PInf else NInf)"

fun py_mul :: "pyfloat \<Rightarrow> pyfloat \<Rightarrow> pyfloat" where
  "py_mul (Fin x) (Fin y) = Fin (x * y)"
| "py_mul NaN y = NaN"
| "py_mul x NaN = NaN"
| "py_mul PInf PInf = PInf"
| "py_mul NInf NInf = PInf"
| "py_mul PInf NInf = NInf"
| "py_mul NInf PInf = NInf"
| "py_mul PInf (Fin y) = inf_times True y"
| "py_mul NInf (Fin y) = inf_times False y"
| "py_mul (Fin x) PInf = inf_times True x"
| "py_mul (Fin x) NInf = inf_times False x"

text \<open>\<^verbatim>\<open>x / 2\<close>\<close>

fun half :: "pyfloat \<Rightarrow> pyfloat" where
  "half (Fin x) = Fin (x / 2)"
| "half PInf = PInf"
| "half NInf = NInf"
| "half NaN = NaN"

text \<open>\<^verbatim>\<open>x ** 2\<close>\<close>

fun square :: "pyfloat \<Rightarrow> pyfloat" where
  "square (Fin x) = Fin (x\<^sup>2)"
| "square PInf = PInf"
| "square NInf = PInf"
| "square NaN = NaN"

text \<open>\<^verbatim>\<open>math.sin\<close>, \<^verbatim>\<open>math.cos\<close>, \<^verbatim>\<open>math.sqrt\<close>, \<^verbatim>\<open>math.asin\<close>\<close>

fun math_sin :: "pyfloat \<Rightarrow> error + pyfloat" where
  "math_sin (Fin x) = Inr (Fin (sin x))"
| "math_sin NaN = Inr NaN"
| "math_sin PInf = Inl ValueError"
| "math_sin NInf = Inl ValueError"

fun math_cos :: "pyfloat \<Rightarrow> error + pyfloat" where
  "math_cos (Fin x) = Inr (Fin (cos x))"
| "math_cos NaN = Inr NaN"
| "math_cos PInf = Inl ValueError"
| "math_cos NInf = Inl ValueError"

fun math_sqrt :: "pyfloat \<Rightarrow> error + pyfloat" where
  "math_sqrt (Fin x) = (if x < 0 then Inl ValueError else Inr (Fin (sqrt x)))"
| "math_sqrt NaN = Inr NaN"
| "math_sqrt PInf = Inr PInf"
| "math_sqrt NInf = Inl ValueError"

fun math_asin :: "pyfloat \<Rightarrow> error + pyfloat" where
  "math_asin (Fin x) =
     (if x < - 1 \<or> 1 < x then Inl ValueError else Inr (Fin (arcsin x)))"
| "math_asin NaN = Inr NaN"
| "math_asin PInf = Inl ValueError"
| "math_asin NInf = Inl ValueError"

text \<open>\<^verbatim>\<open>x < y\<close> and \<^verbatim>\<open>x <= y\<close>\<close>

fun py_lt :: "pyfloat \<Rightarrow> pyfloat \<Rightarrow> bool" where
  "py_lt (Fin x) (Fin y) = (x < y)"
| "py_lt NaN y = False"
| "py_lt x NaN = False"
| "py_lt PInf y = False"
| "py_lt x NInf = False"
| "py_lt NInf y = True"
| "py_lt (Fin x) PInf = True"

fun py_le :: "pyfloat \<Rightarrow> pyfloat \<Rightarrow> bool" where
  "py_le (Fin x) (Fin y) = (x \<le> y)"
| "py_le NaN y = False"
| "py_le x NaN = False"
| "py_le NInf y = True"
| "py_le x PInf = True"
| "py_le PInf y = False"
| "py_le (Fin x) NInf = False"

section \<open>Configuration\<close>

text \<open>
  A point of the configuration is a dict with the keys \<^verbatim>\<open>lat\<close> and \<^verbatim>\<open>lng\<close>, both
  written as decimal literals.
\<close>

record point =
  lat :: real
  lng :: real

record geofence_config =
  tamil_nadu_points :: "point list"
  sri_lanka_points :: "point list"
  boundary_line :: "point list"
  safe_distance_km :: real
  center :: point
  zoom_level :: int

definition pt :: "real \<Rightarrow> real \<Rightarrow> point" where
  "pt la lo = \<lparr>lat = la, lng = lo\<rparr>"

definition GEOFENCE_CONFIG :: geofence_config where
  "GEOFENCE_CONFIG = \<lparr>
     tamil_nadu_points =
       [pt 13.6288 80.1931, pt 13.0827 80.2707, pt 12.6195 80.1952,
        pt 11.9314 79.8333, pt 11.4273 79.7662, pt 10.7870 79.8380,
        pt 10.3833 79.8500, pt 9.2800 79.3100, pt 8.7642 78.1348],
     sri_lanka_points =
       [pt 9.8152 80.0299, pt 9.6700 80.2500, pt 8.9500 81.0000,
        pt 8.3400 81.3300, pt 7.2800 81.6700],
     boundary_line =
       [pt 10.0500 80.0300, pt 9.5000 79.9000, pt 9.2200 79.8000,
        pt 8.9000 79.7000, pt 8.2000 79.3500],
     safe_distance_km = 12,
     center = pt 9.0000 79.8000,
     zoom_level = 7\<rparr>"

section \<open>Distance\<close>

text \<open>
  \<^verbatim>\<open>haversine(lat1, lon1, lat2, lon2)\<close>. The four calls of the \<^verbatim>\<open>math\<close> module in the
  expression for \<^verbatim>\<open>a\<close> run from left to right, and the first one that raises ends the
  function.
\<close>

definition haversine :: "pyfloat \<Rightarrow> pyfloat \<Rightarrow> pyfloat \<Rightarrow> pyfloat \<Rightarrow> error + pyfloat" where
  "haversine lat1 lon1 lat2 lon2 =
     (let lat1 = radians lat1; lon1 = radians lon1;
          lat2 = radians lat2; lon2 = radians lon2;
          dlon = py_sub lon2 lon1;
          dlat = py_sub lat2 lat1
      in case math_sin (half dlat) of Inl e \<Rightarrow> Inl e | Inr s1 \<Rightarrow>
         case math_cos lat1 of Inl e \<Rightarrow> Inl e | Inr c1 \<Rightarrow>
         case math_cos lat2 of Inl e \<Rightarrow> Inl e | Inr c2 \<Rightarrow>
         case math_sin (half dlon) of Inl e \<Rightarrow> Inl e | Inr s2 \<Rightarrow>
         let a = py_add (square s1) (py_mul (py_mul c1 c2) (square s2))
         in case math_sqrt a of Inl e \<Rightarrow> Inl e | Inr q \<Rightarrow>
            case math_asin q of Inl e \<Rightarrow> Inl e | Inr as \<Rightarrow>
            let c = py_mul (Fin 2) as;
                r = Fin 6371
            in Inr (py_mul c r))"

text \<open>
  \<^verbatim>\<open>check_boundary_distance\<close>: the loop over the boundary points, with the running
  minimum as accumulator; it starts at \<^verbatim>\<open>float('inf')\<close>.
\<close>

fun min_loop :: "pyfloat \<Rightarrow> pyfloat \<Rightarrow> point list \<Rightarrow> pyfloat \<Rightarrow> error + pyfloat" where
  "min_loop la lo [] min_distance = Inr min_distance"
| "min_loop la lo (p # ps) min_distance =
     (case haversine la lo (Fin (lat p)) (Fin (lng p)) of
        Inl e \<Rightarrow> Inl e
      | Inr distance \<Rightarrow>
          min_loop la lo ps (if py_lt distance min_distance then distance else min_distance))"

definition check_boundary_distance :: "pyfloat \<Rightarrow> pyfloat \<Rightarrow> point list \<Rightarrow> error + pyfloat" where
  "check_boundary_distance la lo boundary_points = min_loop la lo boundary_points PInf"

text \<open>\<^verbatim>\<open>check_geofence_status\<close>: status 0 is the alert zone, status 1 the safe zone.\<close>

definition ALERT :: int where "ALERT = 0"
definition SAFE :: int where "SAFE = 1"

definition check_geofence_status :: "geofence_config \<Rightarrow> pyfloat \<Rightarrow> pyfloat \<Rightarrow> error + int \<times> pyfloat" where
  "check_geofence_status cfg la lo =
     (case check_boundary_distance la lo (boundary_line cfg) of
        Inl e \<Rightarrow> Inl e
      | Inr distance_to_boundary \<Rightarrow>
          if py_le distance_to_boundary (Fin (safe_distance_km cfg))
          then Inr (0, distance_to_boundary)
          else Inr (1, distance_to_boundary))"

section \<open>Decision\<close>

text \<open>
  The classifier and the scaler are module globals, loaded from files at startup and
  \<^verbatim>\<open>None\<close> when loading did not succeed. The loaded objects are opaque: the scaler maps
  the feature row to a scaled row or raises, the classifier maps a scaled row to the first
  predicted label or raises.
\<close>

record 's classifier_globals =
  model :: "('s \<Rightarrow> error + int) option"
  scaler :: "(pyfloat list \<Rightarrow> error + 's) option"

text \<open>
  The message is an f-string around the distance printed with two decimals; it is kept as
  its pieces.
\<close>

datatype piece = Lit string | Fmt2 pyfloat

record verdict =
  is_suspicious :: bool
  zone_status :: int
  zone_message :: "piece list"
  distance :: pyfloat
  model_prediction :: "int option"

text \<open>
  The \<^verbatim>\<open>try\<close> block of \<^verbatim>\<open>analyze_boat_data\<close>: it returns the pair
  \<^verbatim>\<open>(model_prediction, suspicious)\<close> as the block leaves them; an exception of the scaler
  or of the classifier is caught and leaves the defaults.
\<close>

definition consult :: "('s \<Rightarrow> error + int) \<Rightarrow> (pyfloat list \<Rightarrow> error + 's) \<Rightarrow> pyfloat list \<Rightarrow> int option \<times> bool" where
  "consult m sc new_boat_data =
     (case sc new_boat_data of
        Inl e \<Rightarrow> (None, False)
      | Inr new_boat_scaled \<Rightarrow>
          (case m new_boat_scaled of
             Inl e \<Rightarrow> (None, False)
           | Inr prediction \<Rightarrow> (Some prediction, prediction = 1)))"

definition analyze_boat_data ::
  "'s classifier_globals \<Rightarrow> geofence_config \<Rightarrow> pyfloat \<Rightarrow> pyfloat \<Rightarrow> pyfloat \<Rightarrow> pyfloat \<Rightarrow> error + verdict" where
  "analyze_boat_data g cfg latitude longitude speed direction =
     (case check_geofence_status cfg latitude longitude of
        Inl e \<Rightarrow> Inl e
      | Inr (zs, d) \<Rightarrow>
          if zs = 0 then
            Inr \<lparr>is_suspicious = True, zone_status = zs,
                 zone_message = [Lit ''ALERT: Boat is in restricted zone! '', Fmt2 d,
                                 Lit '' km from boundary''],
                 distance = d, model_prediction = None\<rparr>
          else
            let msg = [Lit ''Safe: Boat is in safe zone. '', Fmt2 d, Lit '' km from boundary'']
            in if model g \<noteq> None \<and> scaler g \<noteq> None then
                 let behavior_label = 0;
                     new_boat_data = [latitude, longitude, speed, direction,
                                      Fin (real_of_int zs), Fin behavior_label];
                     r = consult (the (model g)) (the (scaler g)) new_boat_data
                 in Inr \<lparr>is_suspicious = snd r, zone_status = zs,
                         zone_message =
                           (if snd r
                            then msg @ [Lit '' WARNING: Behavior appears suspicious!'']
                            else msg),
                         distance = d, model_prediction = fst r\<rparr>
               else
                 Inr \<lparr>is_suspicious = False, zone_status = zs, zone_message = msg,
                      distance = d, model_prediction = None\<rparr>)"

section \<open>The distance as a real number\<close>

text \<open>
  The specification's formula for the great-circle distance of two points given in
  degrees, on a sphere of radius 6371 km:
  \<open>a = sin\<^sup>2(\<Delta>lat/2) + cos(lat1) * cos(lat2) * sin\<^sup>2(\<Delta>lon/2)\<close> and the distance
  \<open>2 * R * asin(\<surd>a)\<close>. It is the value \<open>haversine\<close> returns on finite arguments
  (lemma \<open>haversine_Fin\<close>).
\<close>

definition hav_a :: "real \<Rightarrow> real \<Rightarrow> real \<Rightarrow> real \<Rightarrow> real" where
  "hav_a lat1 lon1 lat2 lon2 =
     (sin ((lat2 * pi / 180 - lat1 * pi / 180) / 2))\<^sup>2
     + cos (lat1 * pi / 180) * cos (lat2 * pi / 180)
       * (sin ((lon2 * pi / 180 - lon1 * pi / 180) / 2))\<^sup>2"

definition great_circle_km :: "real \<Rightarrow> real \<Rightarrow> real \<Rightarrow> real \<Rightarrow> real" where
  "great_circle_km lat1 lon1 lat2 lon2 = 2 * arcsin (sqrt (hav_a lat1 lon1 lat2 lon2)) * 6371"

text \<open>The distance from the point \<open>(x, y)\<close> to a vertex of the boundary.\<close>

definition vertex_km :: "real \<Rightarrow> real \<Rightarrow> point \<Rightarrow> real" where
  "vertex_km x y p = great_circle_km x y (lat p) (lng p)"

section \<open>Facts about the distance\<close>

subsection \<open>The haversine term lies between 0 and 1\<close>

lemma cos_half_sin: "cos (x::real) = 1 - 2 * (sin (x / 2))\<^sup>2"
  using cos_double_sin [of "x / 2"] by simp

lemma cos_half_cos: "cos (x::real) = 2 * (cos (x / 2))\<^sup>2 - 1"
  using cos_double_cos [of "x / 2"] by simp

lemma sin_sq_le_one: "(sin (x::real))\<^sup>2 \<le> 1"
  using sin_cos_squared_add [of x] zero_le_power2 [of "cos x"] by linarith

lemma cos_sq_le_one: "(cos (x::real))\<^sup>2 \<le> 1"
  using sin_cos_squared_add [of x] zero_le_power2 [of "sin x"] by linarith

lemma hav_mix:
  fixes p q D :: real
  shows "(sin ((q - p) / 2))\<^sup>2 + cos p * cos q * (sin D)\<^sup>2
       = (1 - (sin D)\<^sup>2) * (sin ((q - p) / 2))\<^sup>2 + (sin D)\<^sup>2 * (cos ((p + q) / 2))\<^sup>2"
proof -
  have e1: "cos (q - p) = 1 - 2 * (sin ((q - p) / 2))\<^sup>2"
    by (rule cos_half_sin)
  have e2: "cos (p + q) = 2 * (cos ((p + q) / 2))\<^sup>2 - 1"
    by (rule cos_half_cos)
  have e3: "cos (q - p) + cos (p + q) = 2 * cos p * cos q"
    by (simp add: cos_diff cos_add)
  have "cos p * cos q = (cos ((p + q) / 2))\<^sup>2 - (sin ((q - p) / 2))\<^sup>2"
    using e1 e2 e3 by simp
  then have "cos p * cos q * (sin D)\<^sup>2
      = ((cos ((p + q) / 2))\<^sup>2 - (sin ((q - p) / 2))\<^sup>2) * (sin D)\<^sup>2"
    by simp
  then show ?thesis by (simp add: algebra_simps)
qed

lemma hav_a_nonneg: "0 \<le> hav_a a b c d"
proof -
  let ?s = "(sin ((d * pi / 180 - b * pi / 180) / 2))\<^sup>2"
  have s1: "?s \<le> 1" by (rule sin_sq_le_one)
  have "0 \<le> (1 - ?s) * (sin ((c * pi / 180 - a * pi / 180) / 2))\<^sup>2"
    using s1 by simp
  moreover have "0 \<le> ?s * (cos ((a * pi / 180 + c * pi / 180) / 2))\<^sup>2" by simp
  ultimately show ?thesis unfolding hav_a_def hav_mix by linarith
qed

lemma hav_a_le_one: "hav_a a b c d \<le> 1"
proof -
  let ?s = "(sin ((d * pi / 180 - b * pi / 180) / 2))\<^sup>2"
  let ?A = "(sin ((c * pi / 180 - a * pi / 180) / 2))\<^sup>2"
  let ?B = "(cos ((a * pi / 180 + c * pi / 180) / 2))\<^sup>2"
  have s1: "?s \<le> 1" "0 \<le> ?s" by (simp_all add: sin_sq_le_one)
  have A: "?A \<le> 1" by (rule sin_sq_le_one)
  have B: "?B \<le> 1" by (rule cos_sq_le_one)
  have "(1 - ?s) * ?A \<le> 1 - ?s"
    using mult_left_mono [of ?A 1 "1 - ?s"] s1 A by simp
  moreover have "?s * ?B \<le> ?s"
    using mult_left_mono [of ?B 1 ?s] s1 B by simp
  ultimately show ?thesis unfolding hav_a_def hav_mix by linarith
qed

text \<open>
  So on finite arguments, in exact arithmetic, neither \<^verbatim>\<open>math.sqrt\<close> nor
  \<^verbatim>\<open>math.asin\<close> raises, and \<open>haversine\<close> returns the real distance. In floating point,
  rounding can move \<^verbatim>\<open>a\<close> slightly below 0 or above 1 (for nearly antipodal points with
  coordinates outside the valid ranges), and the program then raises \<^verbatim>\<open>ValueError\<close>. The
  theorems below use this lemma at the configured points, and to see that a distance
  computed from finite coordinates is not NaN; the general statement about the returned
  distance is made for the case that a distance is returned.
\<close>

lemma haversine_Fin:
  "haversine (Fin a) (Fin b) (Fin c) (Fin d) = Inr (Fin (great_circle_km a b c d))"
proof -
  have n: "\<not> hav_a a b c d < 0" using hav_a_nonneg [of a b c d] by simp
  have u: "\<not> 1 < sqrt (hav_a a b c d)" using hav_a_le_one [of a b c d] by simp
  have l: "\<not> sqrt (hav_a a b c d) < - 1"
    using hav_a_nonneg [of a b c d] by (smt (verit) real_sqrt_ge_zero)
  show ?thesis
    using n u l by (simp add: haversine_def great_circle_km_def hav_a_def Let_def)
qed

lemma great_circle_km_nonneg: "0 \<le> great_circle_km a b c d"
  unfolding great_circle_km_def
  using hav_a_nonneg [of a b c d] hav_a_le_one [of a b c d]
  by (simp add: arcsin_nonneg)

lemma great_circle_km_same: "great_circle_km a b a b = 0"
  by (simp add: great_circle_km_def hav_a_def)

lemma vertex_km_nonneg: "0 \<le> vertex_km x y p"
  by (simp add: vertex_km_def great_circle_km_nonneg)

subsection \<open>The loop computes the minimum\<close>

lemma min_loop_Fin:
  "min_loop (Fin x) (Fin y) ps (Fin r) = Inr (Fin (fold min (map (vertex_km x y) ps) r))"
  by (induction ps arbitrary: r) (auto simp add: haversine_Fin min_def vertex_km_def)

lemma check_boundary_distance_Fin:
  assumes "ps \<noteq> []"
  shows "check_boundary_distance (Fin x) (Fin y) ps = Inr (Fin (Min (vertex_km x y ` set ps)))"
proof -
  obtain p qs where ps: "ps = p # qs" using assms by (cases ps) auto
  have "check_boundary_distance (Fin x) (Fin y) ps
      = min_loop (Fin x) (Fin y) qs (Fin (vertex_km x y p))"
    by (simp add: check_boundary_distance_def ps haversine_Fin vertex_km_def)
  also have "\<dots> = Inr (Fin (fold min (map (vertex_km x y) qs) (vertex_km x y p)))"
    by (rule min_loop_Fin)
  also have "fold min (map (vertex_km x y) qs) (vertex_km x y p)
      = Min (set (vertex_km x y p # map (vertex_km x y) qs))"
    by (rule Min.set_eq_fold [symmetric])
  finally show ?thesis by (simp add: ps)
qed

lemma Min_vertex_nonneg: "ps \<noteq> [] \<Longrightarrow> 0 \<le> Min (vertex_km x y ` set ps)"
  by (simp add: vertex_km_nonneg)

text \<open>The running minimum is never NaN: a NaN distance fails the comparison.\<close>

lemma py_lt_not_NaN: "py_lt d m \<Longrightarrow> d \<noteq> NaN"
  by (cases d; cases m) auto

lemma min_loop_not_NaN: "min_loop la lo ps m = Inr d \<Longrightarrow> m \<noteq> NaN \<Longrightarrow> d \<noteq> NaN"
  by (induction ps arbitrary: m) (auto split: sum.splits if_splits dest: py_lt_not_NaN)

lemma check_boundary_distance_not_NaN: "check_boundary_distance la lo ps = Inr d \<Longrightarrow> d \<noteq> NaN"
  unfolding check_boundary_distance_def by (erule min_loop_not_NaN) simp

lemma py_le_iff_not_lt: "d \<noteq> NaN \<Longrightarrow> py_le d (Fin t) \<longleftrightarrow> \<not> py_lt (Fin t) d"
  by (cases d) auto

text \<open>
  What the loop returns, in terms of the values of \<open>haversine\<close> alone: a value of
  \<open>haversine\<close> is NaN or a finite number that is not negative; the result of the loop is
  not greater than any vertex distance, and it is one of them unless all of them are NaN,
  where it is the initial infinity.
\<close>

lemma math_sqrt_result:
  "math_sqrt a = Inr q \<Longrightarrow> q = NaN \<or> q = PInf \<or> (\<exists>y. q = Fin y \<and> 0 \<le> y)"
  by (cases a) (auto split: if_splits)

lemma math_asin_result:
  "math_asin q = Inr r \<Longrightarrow> q = NaN \<or> q = PInf \<or> (\<exists>y. q = Fin y \<and> 0 \<le> y)
     \<Longrightarrow> r = NaN \<or> (\<exists>z. r = Fin z \<and> 0 \<le> z)"
  by (cases q) (auto split: if_splits simp add: arcsin_nonneg)

lemma haversine_result:
  assumes "haversine la lo la' lo' = Inr r"
  shows "r = NaN \<or> (\<exists>z. r = Fin z \<and> 0 \<le> z)"
proof -
  from assms obtain a q as where q: "math_sqrt a = Inr q" and as: "math_asin q = Inr as"
    and r: "r = py_mul (py_mul (Fin 2) as) (Fin 6371)"
    by (auto simp add: haversine_def Let_def split: sum.splits)
  from math_asin_result [OF as math_sqrt_result [OF q]]
  show ?thesis using r by auto
qed

lemma haversine_NaN_lat: "haversine NaN (Fin y) (Fin a) (Fin b) = Inr NaN"
  by (simp add: haversine_def Let_def)

lemma haversine_NaN_only:
  assumes "haversine la lo (Fin a) (Fin b) = Inr NaN"
  shows "la = NaN \<or> lo = NaN"
proof (rule ccontr)
  assume n: "\<not> (la = NaN \<or> lo = NaN)"
  show False
  proof (cases la)
    case (Fin x)
    then show False using assms n
      by (cases lo) (simp_all add: haversine_Fin, simp_all add: haversine_def Let_def)
  next
    case PInf
    then show False using assms by (simp add: haversine_def Let_def)
  next
    case NInf
    then show False using assms by (simp add: haversine_def Let_def)
  next
    case NaN
    then show False using n by simp
  qed
qed

lemma py_lt_chain1: "\<not> py_lt b d \<Longrightarrow> py_lt b m \<Longrightarrow> d \<noteq> NaN \<Longrightarrow> \<not> py_lt m d"
  by (cases b; cases d; cases m) auto

lemma py_lt_chain2:
  "\<not> py_lt m d \<Longrightarrow> \<not> py_lt dv m \<Longrightarrow> m \<noteq> NaN \<Longrightarrow> d \<noteq> NaN \<Longrightarrow> \<not> py_lt dv d"
  by (cases m; cases d; cases dv) auto

lemma min_loop_lower:
  "min_loop la lo ps m = Inr d \<Longrightarrow> m \<noteq> NaN \<Longrightarrow>
     \<not> py_lt m d \<and>
     (\<forall>p\<in>set ps. \<exists>dv. haversine la lo (Fin (lat p)) (Fin (lng p)) = Inr dv \<and> \<not> py_lt dv d)"
proof (induction ps arbitrary: m)
  case Nil
  then show ?case by (cases m) auto
next
  case (Cons p ps)
  from Cons.prems obtain dv where dv: "haversine la lo (Fin (lat p)) (Fin (lng p)) = Inr dv"
    and rest: "min_loop la lo ps (if py_lt dv m then dv else m) = Inr d"
    by (auto split: sum.splits)
  let ?m' = "if py_lt dv m then dv else m"
  have m': "?m' \<noteq> NaN" using Cons.prems(2) by (auto dest: py_lt_not_NaN)
  have d: "d \<noteq> NaN" using rest m' by (rule min_loop_not_NaN)
  from Cons.IH [OF rest m'] have low: "\<not> py_lt ?m' d"
    and all: "\<forall>q\<in>set ps. \<exists>dv. haversine la lo (Fin (lat q)) (Fin (lng q)) = Inr dv \<and> \<not> py_lt dv d"
    by blast+
  have "\<not> py_lt m d \<and> \<not> py_lt dv d"
  proof (cases "py_lt dv m")
    case True
    then show ?thesis using low d py_lt_chain1 [of dv d m] by simp
  next
    case False
    then show ?thesis using low d Cons.prems(2) py_lt_chain2 [of m d dv] by simp
  qed
  then show ?case using dv all by simp
qed

lemma min_loop_attained:
  "min_loop la lo ps m = Inr d \<Longrightarrow>
     d = m \<or> (\<exists>p\<in>set ps. haversine la lo (Fin (lat p)) (Fin (lng p)) = Inr d)"
proof (induction ps arbitrary: m)
  case Nil
  then show ?case by simp
next
  case (Cons p ps)
  from Cons.prems obtain dv where dv: "haversine la lo (Fin (lat p)) (Fin (lng p)) = Inr dv"
    and rest: "min_loop la lo ps (if py_lt dv m then dv else m) = Inr d"
    by (auto split: sum.splits)
  from Cons.IH [OF rest] show ?case using dv by (auto split: if_splits)
qed

lemma boundary_distance_cases:
  assumes "check_boundary_distance la lo ps = Inr d"
  shows "(\<exists>p\<in>set ps. haversine la lo (Fin (lat p)) (Fin (lng p)) = Inr d)
       \<or> (d = PInf \<and> (\<forall>p\<in>set ps. haversine la lo (Fin (lat p)) (Fin (lng p)) = Inr NaN))"
proof -
  have ml: "min_loop la lo ps PInf = Inr d" using assms by (simp add: check_boundary_distance_def)
  from min_loop_attained [OF ml] show ?thesis
  proof
    assume d: "d = PInf"
    have "haversine la lo (Fin (lat p)) (Fin (lng p)) = Inr NaN" if "p \<in> set ps" for p
    proof -
      from min_loop_lower [OF ml] that obtain dv
        where dv: "haversine la lo (Fin (lat p)) (Fin (lng p)) = Inr dv" and nl: "\<not> py_lt dv d"
        by auto
      from haversine_result [OF dv] nl d have "dv = NaN" by auto
      then show ?thesis using dv by simp
    qed
    then show ?thesis using d by blast
  qed blast
qed

lemma boundary_distance_nonneg:
  assumes "check_boundary_distance la lo ps = Inr d"
  shows "py_le (Fin 0) d"
proof -
  have nn: "d \<noteq> NaN" using assms by (rule check_boundary_distance_not_NaN)
  from boundary_distance_cases [OF assms] show ?thesis
  proof
    assume "\<exists>p\<in>set ps. haversine la lo (Fin (lat p)) (Fin (lng p)) = Inr d"
    then obtain p :: point where "haversine la lo (Fin (lat p)) (Fin (lng p)) = Inr d" by blast
    from haversine_result [OF this] nn show ?thesis by auto
  next
    assume "d = PInf \<and> (\<forall>p\<in>set ps. haversine la lo (Fin (lat p)) (Fin (lng p)) = Inr NaN)"
    then show ?thesis by simp
  qed
qed

subsection \<open>Swapping the two points\<close>

lemma sin_half_swap: "(sin ((a - b) / 2))\<^sup>2 = (sin ((b - a) / (2::real)))\<^sup>2"
proof -
  have "(a - b) / 2 = - ((b - a) / 2)" by (simp add: field_simps)
  then have "sin ((a - b) / 2) = - sin ((b - a) / 2)" by (simp only: sin_minus)
  then show ?thesis by simp
qed

lemma sq_sin_swap:
  "map_sum id square (math_sin (half (py_sub a b)))
 = map_sum id square (math_sin (half (py_sub b a)))"
  by (cases a; cases b) (simp_all add: sin_half_swap)

lemma py_mul_commute: "py_mul a b = py_mul b a"
  by (cases a; cases b) (simp_all add: mult.commute)

lemma math_sin_error: "math_sin x = Inl e \<Longrightarrow> e = ValueError"
  by (cases x) auto

lemma math_cos_error: "math_cos x = Inl e \<Longrightarrow> e = ValueError"
  by (cases x) auto

lemma haversine_alt:
  "haversine lat1 lon1 lat2 lon2 =
    (case map_sum id square (math_sin (half (py_sub (radians lat2) (radians lat1)))) of
       Inl e \<Rightarrow> Inl ValueError
     | Inr s1 \<Rightarrow>
       (case (math_cos (radians lat1), math_cos (radians lat2)) of
          (Inr c1, Inr c2) \<Rightarrow>
            (case map_sum id square (math_sin (half (py_sub (radians lon2) (radians lon1)))) of
               Inl e \<Rightarrow> Inl ValueError
             | Inr s2 \<Rightarrow>
                (case math_sqrt (py_add s1 (py_mul (py_mul c1 c2) s2)) of
                   Inl e \<Rightarrow> Inl e
                 | Inr q \<Rightarrow>
                    (case math_asin q of
                       Inl e \<Rightarrow> Inl e
                     | Inr as \<Rightarrow> Inr (py_mul (py_mul (Fin 2) as) (Fin 6371)))))
        | _ \<Rightarrow> Inl ValueError))"
  by (auto simp add: haversine_def Let_def
        split: sum.splits dest: math_sin_error math_cos_error)

subsection \<open>Lower bounds for the configured centre point\<close>

text \<open>
  The point \<open>(9.0, 79.8)\<close> is more than 12 km away from each of the five vertices of
  the configured boundary line. The bounds use \<open>3 \<le> pi < 4\<close>, \<open>x - x\<^sup>3/6 \<le> sin x\<close>
  and \<open>y \<le> arcsin y\<close>.
\<close>

lemma pi_ge_three: "3 \<le> pi"
proof -
  have "0 \<le> pi / 6" by simp
  then have "sin (pi / 6) \<le> pi / 6" by (rule sin_x_le_x)
  then show ?thesis by (simp add: sin_30)
qed

lemma sin_cubic_lower:
  fixes x :: real
  assumes "0 \<le> x"
  shows "x - x ^ 3 / 6 \<le> sin x"
proof -
  have s: "(\<Sum>m<3. sin_coeff m * x ^ m) = x"
    by (simp add: sin_coeff_def eval_nat_numeral)
  have "\<bar>sin x - (\<Sum>m<3. sin_coeff m * x ^ m)\<bar> \<le> inverse (fact 3) * \<bar>x\<bar> ^ 3"
    by (rule Maclaurin_sin_bound)
  then have "\<bar>sin x - x\<bar> \<le> inverse (fact 3) * \<bar>x\<bar> ^ 3"
    by (simp only: s)
  then have "\<bar>sin x - x\<bar> \<le> x ^ 3 / 6"
    using assms by (simp add: fact_numeral)
  then show ?thesis by linarith
qed

lemma arcsin_ge_self:
  assumes "0 \<le> y" "y \<le> 1"
  shows "y \<le> arcsin y"
proof -
  have "0 \<le> arcsin y" using assms by (simp add: arcsin_nonneg)
  then have "sin (arcsin y) \<le> arcsin y" by (rule sin_x_le_x)
  then show ?thesis using assms by simp
qed

lemma sin_deg_lower:
  fixes u :: real
  assumes "0 \<le> u" "u \<le> 1"
  shows "u * 12149 / 729000 \<le> sin (u * pi / 180)"
proof -
  define x where "x = u * pi / 180"
  have "u * 3 \<le> u * pi" using pi_ge_three assms(1) by (rule mult_left_mono)
  then have lo: "u / 60 \<le> x" unfolding x_def by linarith
  have "u * pi \<le> 1 * 4" using assms pi_less_4 by (intro mult_mono) auto
  then have hi: "x \<le> 1 / 45" unfolding x_def by linarith
  have x0: "0 \<le> x" using lo assms(1) by linarith
  have "x\<^sup>2 \<le> (1 / 45)\<^sup>2" using hi x0 by (rule power_mono)
  then have "12149 / 12150 \<le> 1 - x\<^sup>2 / 6" by (simp add: power2_eq_square)
  then have "x * (12149 / 12150) \<le> x * (1 - x\<^sup>2 / 6)"
    using x0 by (rule mult_left_mono)
  moreover have "x * (1 - x\<^sup>2 / 6) = x - x ^ 3 / 6"
    by (simp add: power2_eq_square power3_eq_cube algebra_simps)
  moreover have "x - x ^ 3 / 6 \<le> sin x" using x0 by (rule sin_cubic_lower)
  ultimately have "u * 12149 / 729000 \<le> sin x" using lo by linarith
  then show ?thesis unfolding x_def .
qed

lemma sin_sq_deg_lower:
  fixes t :: real
  assumes "\<bar>t\<bar> \<le> 1"
  shows "(t * 12149 / 729000)\<^sup>2 \<le> (sin (t * pi / 180))\<^sup>2"
proof -
  have pos: "(u * 12149 / 729000)\<^sup>2 \<le> (sin (u * pi / 180))\<^sup>2" if "0 \<le> u" "u \<le> 1" for u :: real
  proof -
    have "u * 12149 / 729000 \<le> sin (u * pi / 180)" using that by (rule sin_deg_lower)
    moreover have "0 \<le> u * 12149 / 729000" using that by simp
    ultimately show ?thesis by (rule power_mono)
  qed
  show ?thesis
  proof (cases "0 \<le> t")
    case True
    then show ?thesis using pos [of t] assms by simp
  next
    case False
    then have "0 \<le> - t" "- t \<le> 1" using assms by simp_all
    then have "(- t * 12149 / 729000)\<^sup>2 \<le> (sin (- t * pi / 180))\<^sup>2" by (rule pos)
    moreover have "- t * 12149 / 729000 = - (t * 12149 / 729000)" by simp
    moreover have "sin (- t * pi / 180) = - sin (t * pi / 180)"
    proof -
      have "- t * pi / 180 = - (t * pi / 180)" by simp
      then show ?thesis by (simp only: sin_minus)
    qed
    ultimately show ?thesis by (simp only: power2_minus)
  qed
qed

lemma hav_a_deg:
  "hav_a a b c d = (sin ((c - a) / 2 * pi / 180))\<^sup>2
     + cos (a * pi / 180) * cos (c * pi / 180) * (sin ((d - b) / 2 * pi / 180))\<^sup>2"
proof -
  have 1: "(c * pi / 180 - a * pi / 180) / 2 = (c - a) / 2 * pi / 180" by (simp add: field_simps)
  have 2: "(d * pi / 180 - b * pi / 180) / 2 = (d - b) / 2 * pi / 180" by (simp add: field_simps)
  show ?thesis unfolding hav_a_def 1 2 ..
qed

lemma cos_deg_lower:
  fixes t :: real
  assumes "0 \<le> t" "t \<le> 11"
  shows "24 / 25 \<le> cos (t * pi / 180)"
proof -
  define y where "y = t * pi / 180"
  have "0 \<le> t * pi" using assms by simp
  then have y0: "0 \<le> y" unfolding y_def by linarith
  have "t * pi \<le> 11 * 4" using assms pi_less_4 by (intro mult_mono) auto
  then have hi: "y / 2 \<le> 11 / 90" unfolding y_def by linarith
  have "\<bar>sin (y / 2)\<bar> \<le> \<bar>y / 2\<bar>" by (rule abs_sin_x_le_abs_x)
  then have "\<bar>sin (y / 2)\<bar> \<le> 11 / 90" using hi y0 by linarith
  then have "\<bar>sin (y / 2)\<bar>\<^sup>2 \<le> (11 / 90)\<^sup>2" by (intro power_mono) auto
  then have "(sin (y / 2))\<^sup>2 \<le> 1 / 50" by (simp add: power2_eq_square)
  then have "24 / 25 \<le> cos y" using cos_half_sin [of y] by linarith
  then show ?thesis unfolding y_def .
qed

lemma km_lower:
  assumes "(6 / 6371)\<^sup>2 < hav_a a b c d"
  shows "12 < great_circle_km a b c d"
proof -
  let ?q = "sqrt (hav_a a b c d)"
  have q: "6 / 6371 < ?q" using assms by (rule real_less_rsqrt)
  have "0 \<le> ?q" "?q \<le> 1" using hav_a_nonneg [of a b c d] hav_a_le_one [of a b c d] by simp_all
  then have "?q \<le> arcsin ?q" by (rule arcsin_ge_self)
  then show ?thesis using q by (simp add: great_circle_km_def)
qed

lemma km_lower_deg:
  assumes lat: "0 \<le> a" "a \<le> 11" "0 \<le> c" "c \<le> 11"
    and near: "\<bar>c - a\<bar> \<le> 2" "\<bar>d - b\<bar> \<le> 2"
    and far: "(6 / 6371)\<^sup>2
        < ((c - a) / 2 * 12149 / 729000)\<^sup>2
          + 24 / 25 * (24 / 25) * ((d - b) / 2 * 12149 / 729000)\<^sup>2"
  shows "12 < great_circle_km a b c d"
proof (rule km_lower)
  define A where "A = (sin ((c - a) / 2 * pi / 180))\<^sup>2"
  define B where "B = (sin ((d - b) / 2 * pi / 180))\<^sup>2"
  define C where "C = cos (a * pi / 180) * cos (c * pi / 180)"
  define A' where "A' = ((c - a) / 2 * 12149 / 729000)\<^sup>2"
  define B' where "B' = ((d - b) / 2 * 12149 / 729000)\<^sup>2"
  have A: "A' \<le> A" unfolding A_def A'_def using near(1) by (intro sin_sq_deg_lower) simp
  have B: "B' \<le> B" unfolding B_def B'_def using near(2) by (intro sin_sq_deg_lower) simp
  have c1: "24 / 25 \<le> cos (a * pi / 180)" using lat(1,2) by (rule cos_deg_lower)
  have c2: "24 / 25 \<le> cos (c * pi / 180)" using lat(3,4) by (rule cos_deg_lower)
  have b0: "0 \<le> cos (a * pi / 180)" using c1 by linarith
  have C: "24 / 25 * (24 / 25) \<le> C" unfolding C_def by (rule mult_mono [OF c1 c2 b0]) simp
  have C0: "0 \<le> C" using C by linarith
  have B'0: "0 \<le> B'" unfolding B'_def by simp
  have "24 / 25 * (24 / 25) * B' \<le> C * B" by (rule mult_mono [OF C B C0 B'0])
  then have "A' + 24 / 25 * (24 / 25) * B' \<le> A + C * B" using A by linarith
  moreover have "hav_a a b c d = A + C * B" unfolding hav_a_deg A_def B_def C_def ..
  moreover have "(6 / 6371)\<^sup>2 < A' + 24 / 25 * (24 / 25) * B'"
    using far unfolding A'_def B'_def .
  ultimately show "(6 / 6371)\<^sup>2 < hav_a a b c d" by linarith
qed

lemma center_v1: "12 < great_circle_km 9 79.8 10.05 80.03"
  by (rule km_lower_deg) (simp_all add: power2_eq_square)

lemma center_v2: "12 < great_circle_km 9 79.8 9.5 79.9"
  by (rule km_lower_deg) (simp_all add: power2_eq_square)

lemma center_v3: "12 < great_circle_km 9 79.8 9.22 79.8"
  by (rule km_lower_deg) (simp_all add: power2_eq_square)

lemma center_v4: "12 < great_circle_km 9 79.8 8.9 79.7"
  by (rule km_lower_deg) (simp_all add: power2_eq_square)

lemma center_v5: "12 < great_circle_km 9 79.8 8.2 79.35"
  by (rule km_lower_deg) (simp_all add: power2_eq_square)

lemma center_far: "\<forall>p\<in>set (boundary_line GEOFENCE_CONFIG). 12 < vertex_km 9 79.8 p"
  using center_v1 center_v2 center_v3 center_v4 center_v5
  by (simp add: GEOFENCE_CONFIG_def pt_def vertex_km_def)

lemma center_status:
  "check_geofence_status GEOFENCE_CONFIG (Fin 9) (Fin 79.8)
     = Inr (SAFE, Fin (Min (vertex_km 9 79.8 ` set (boundary_line GEOFENCE_CONFIG))))"
proof -
  have ne: "boundary_line GEOFENCE_CONFIG \<noteq> []" by (simp add: GEOFENCE_CONFIG_def)
  have "12 < Min (vertex_km 9 79.8 ` set (boundary_line GEOFENCE_CONFIG))"
    using center_far ne by simp
  moreover have "safe_distance_km GEOFENCE_CONFIG = 12" by (simp add: GEOFENCE_CONFIG_def)
  ultimately show ?thesis
    using check_boundary_distance_Fin [OF ne, of 9 "79.8"]
    by (simp add: check_geofence_status_def SAFE_def)
qed

text \<open>A point that is a vertex of the boundary is at distance 0 and in the alert zone.\<close>

lemma vertex_status:
  assumes "p \<in> set (boundary_line cfg)" and "0 \<le> safe_distance_km cfg"
  shows "check_geofence_status cfg (Fin (lat p)) (Fin (lng p)) = Inr (ALERT, Fin 0)"
proof -
  have ne: "boundary_line cfg \<noteq> []" using assms(1) by auto
  have "vertex_km (lat p) (lng p) p = 0" by (simp add: vertex_km_def great_circle_km_same)
  then have "Min (vertex_km (lat p) (lng p) ` set (boundary_line cfg)) \<le> 0"
    using assms(1) by (metis List.finite_set Min_le finite_imageI imageI)
  then have "Min (vertex_km (lat p) (lng p) ` set (boundary_line cfg)) = 0"
    using Min_vertex_nonneg [OF ne, of "lat p" "lng p"] by linarith
  then show ?thesis
    using check_boundary_distance_Fin [OF ne, of "lat p" "lng p"] assms(2)
    by (simp add: check_geofence_status_def ALERT_def)
qed

lemma vertex3_status:
  "check_geofence_status GEOFENCE_CONFIG (Fin 9.22) (Fin 79.8) = Inr (ALERT, Fin 0)"
  using vertex_status [of "pt 9.22 79.8" GEOFENCE_CONFIG]
  by (simp add: GEOFENCE_CONFIG_def pt_def)

subsection \<open>The classifier\<close>


section \<open>The claims\<close>



text \<open>
  C2. Whenever \<open>check_geofence_status\<close> returns a status and a distance, the distance is
  the one \<open>check_boundary_distance\<close> computed for the configured boundary line, the status
  is ALERT exactly when that distance is less than or equal to the threshold, and SAFE
  exactly when it is strictly greater; a distance equal to the threshold is ALERT.
\<close>

theorem geofence_status_threshold:
  assumes "check_geofence_status cfg la lo = Inr (z, d)"
  shows "check_boundary_distance la lo (boundary_line cfg) = Inr d
       \<and> (z = ALERT \<or> z = SAFE)
       \<and> (z = ALERT \<longleftrightarrow> py_le d (Fin (safe_distance_km cfg)))
       \<and> (z = SAFE \<longleftrightarrow> py_lt (Fin (safe_distance_km cfg)) d)"
proof -
  from assms obtain d' where d': "check_boundary_distance la lo (boundary_line cfg) = Inr d'"
    by (auto simp add: check_geofence_status_def split: sum.splits)
  have nn: "d' \<noteq> NaN" using d' by (rule check_boundary_distance_not_NaN)
  show ?thesis
    using assms d' py_le_iff_not_lt [OF nn, of "safe_distance_km cfg"]
    by (auto simp add: check_geofence_status_def ALERT_def SAFE_def split: if_splits)
qed

theorem geofence_status_threshold_witness:
  "check_geofence_status GEOFENCE_CONFIG (Fin 9.22) (Fin 79.8) = Inr (ALERT, Fin 0)
   \<and> check_boundary_distance (Fin 9.22) (Fin 79.8) (boundary_line GEOFENCE_CONFIG) = Inr (Fin 0)
   \<and> py_le (Fin 0) (Fin (safe_distance_km GEOFENCE_CONFIG))
   \<and> \<not> py_lt (Fin (safe_distance_km GEOFENCE_CONFIG)) (Fin 0)"
  using geofence_status_threshold [OF vertex3_status] vertex3_status
  by (simp add: ALERT_def SAFE_def)



text \<open>
  C4, as amended. On an empty boundary line \<open>check_boundary_distance\<close> raises nothing: it
  returns positive infinity, and \<open>check_geofence_status\<close> then classifies every point as
  SAFE with that distance.
\<close>

theorem empty_boundary_inf_safe:
  "check_boundary_distance la lo [] = Inr PInf
   \<and> check_geofence_status (cfg\<lparr>boundary_line := []\<rparr>) la lo = Inr (SAFE, PInf)"
  by (simp add: check_boundary_distance_def check_geofence_status_def SAFE_def)

text \<open>
  The claim as it was stated (an error on the empty boundary line, and no classification)
  fails at the point \<open>(9.0, 79.8)\<close>.
\<close>

theorem empty_boundary_returns:
  "check_boundary_distance (Fin 9) (Fin 79.8) [] = Inr PInf
   \<and> \<not> isl (check_boundary_distance (Fin 9) (Fin 79.8) [])
   \<and> check_geofence_status (GEOFENCE_CONFIG\<lparr>boundary_line := []\<rparr>) (Fin 9) (Fin 79.8)
       = Inr (SAFE, PInf)"
  by (simp add: check_boundary_distance_def check_geofence_status_def SAFE_def)

text \<open>
  C5. If the observation is classified SAFE, both the classifier and the scaler are
  loaded, and the scaler or the classifier raises on the feature row, then
  \<open>analyze_boat_data\<close> still returns a verdict, with \<open>is_suspicious\<close> false and no model
  prediction: the failure does not reach the caller.
\<close>

theorem classifier_failure_recovered:
  assumes "check_geofence_status cfg la lo = Inr (SAFE, d)"
    and "model g = Some m" and "scaler g = Some sc"
    and "isl (sc [la, lo, s, dir, Fin 1, Fin 0])
         \<or> isl (m (projr (sc [la, lo, s, dir, Fin 1, Fin 0])))"
  shows "\<exists>v. analyze_boat_data g cfg la lo s dir = Inr v
           \<and> \<not> is_suspicious v \<and> model_prediction v = None
           \<and> zone_status v = SAFE \<and> distance v = d"
  using assms
  by (auto simp add: analyze_boat_data_def SAFE_def Let_def consult_def isl_def
           split: sum.splits)

theorem classifier_failure_recovered_witness:
  "\<exists>v. analyze_boat_data
          \<lparr>model = Some (\<lambda>x::pyfloat list. Inl ModelError), scaler = Some Inr\<rparr>
          GEOFENCE_CONFIG (Fin 9) (Fin 79.8) (Fin 5) (Fin 90) = Inr v
       \<and> \<not> is_suspicious v \<and> model_prediction v = None \<and> zone_status v = SAFE"
proof -
  let ?m = "\<lambda>x::pyfloat list. (Inl ModelError :: error + int)"
  let ?sc = "Inr :: pyfloat list \<Rightarrow> error + pyfloat list"
  have f: "isl (?sc [Fin 9, Fin 79.8, Fin 5, Fin 90, Fin 1, Fin 0])
         \<or> isl (?m (projr (?sc [Fin 9, Fin 79.8, Fin 5, Fin 90, Fin 1, Fin 0])))"
    by simp
  show ?thesis
    using classifier_failure_recovered
      [OF center_status, of "\<lparr>model = Some ?m, scaler = Some ?sc\<rparr>" ?m ?sc "Fin 5" "Fin 90", OF _ _ f]
    by auto
qed

text \<open>
  C6. If the observation is classified ALERT, \<open>analyze_boat_data\<close> returns
  \<open>is_suspicious\<close> true and no model prediction, whatever classifier is loaded: the verdict
  is the one returned with no classifier at all.
\<close>

theorem alert_short_circuit:
  assumes "check_geofence_status cfg la lo = Inr (ALERT, d)"
  shows "\<exists>v. analyze_boat_data g cfg la lo s dir = Inr v
           \<and> is_suspicious v \<and> model_prediction v = None
           \<and> zone_status v = ALERT \<and> distance v = d
           \<and> analyze_boat_data \<lparr>model = None, scaler = None\<rparr> cfg la lo s dir = Inr v"
  using assms by (simp add: analyze_boat_data_def ALERT_def)

theorem alert_short_circuit_witness:
  "\<exists>v. analyze_boat_data \<lparr>model = Some (\<lambda>x::pyfloat list. Inr 0), scaler = Some Inr\<rparr>
          GEOFENCE_CONFIG (Fin 9.22) (Fin 79.8) (Fin 5) (Fin 90) = Inr v
       \<and> is_suspicious v \<and> model_prediction v = None \<and> zone_status v = ALERT
       \<and> distance v = Fin 0"
  using alert_short_circuit [OF vertex3_status,
      of "\<lparr>model = Some (\<lambda>x::pyfloat list. Inr 0), scaler = Some Inr\<rparr>" "Fin 5" "Fin 90"]
  by auto

text \<open>
  C7, as amended. For every observation and every non-empty boundary line for which
  \<open>analyze_boat_data\<close> returns a verdict, the distance of the verdict is the one
  \<open>check_boundary_distance\<close> returned; it is not negative, and no vertex of the line has a
  smaller haversine distance to the observation point. If neither coordinate is NaN it is
  the haversine distance of one of the vertices, hence their minimum (vertices only, no
  segments). Otherwise it may be infinity, with every vertex distance NaN.
\<close>

theorem returned_distance_is_vertex_minimum:
  assumes ne: "boundary_line cfg \<noteq> []"
    and ret: "analyze_boat_data g cfg la lo s dir = Inr v"
  shows "check_boundary_distance la lo (boundary_line cfg) = Inr (distance v)
       \<and> py_le (Fin 0) (distance v)
       \<and> (\<forall>p\<in>set (boundary_line cfg).
             \<exists>dv. haversine la lo (Fin (lat p)) (Fin (lng p)) = Inr dv \<and> \<not> py_lt dv (distance v))
       \<and> ((\<exists>p\<in>set (boundary_line cfg).
              haversine la lo (Fin (lat p)) (Fin (lng p)) = Inr (distance v))
          \<or> (distance v = PInf
              \<and> (\<forall>p\<in>set (boundary_line cfg).
                    haversine la lo (Fin (lat p)) (Fin (lng p)) = Inr NaN)))
       \<and> (la \<noteq> NaN \<and> lo \<noteq> NaN \<longrightarrow>
            (\<exists>p\<in>set (boundary_line cfg).
               haversine la lo (Fin (lat p)) (Fin (lng p)) = Inr (distance v)))"
proof -
  from ret have cbd: "check_boundary_distance la lo (boundary_line cfg) = Inr (distance v)"
    by (auto simp add: analyze_boat_data_def check_geofence_status_def Let_def
          split: sum.splits if_splits)
  then have ml: "min_loop la lo (boundary_line cfg) PInf = Inr (distance v)"
    by (simp add: check_boundary_distance_def)
  note cases = boundary_distance_cases [OF cbd]
  have att: "\<exists>p\<in>set (boundary_line cfg).
      haversine la lo (Fin (lat p)) (Fin (lng p)) = Inr (distance v)"
    if "la \<noteq> NaN" "lo \<noteq> NaN"
  proof (rule ccontr)
    assume n: "\<not> ?thesis"
    obtain p where p: "p \<in> set (boundary_line cfg)" using ne by (cases "boundary_line cfg") auto
    from cases n p have "haversine la lo (Fin (lat p)) (Fin (lng p)) = Inr NaN" by blast
    from haversine_NaN_only [OF this] that show False by simp
  qed
  show ?thesis
    using cbd boundary_distance_nonneg [OF cbd] min_loop_lower [OF ml] cases att by blast
qed

theorem returned_distance_is_vertex_minimum_witness:
  "boundary_line GEOFENCE_CONFIG \<noteq> []
   \<and> (\<exists>v. analyze_boat_data (\<lparr>model = None, scaler = None\<rparr> :: unit classifier_globals)
            GEOFENCE_CONFIG (Fin 9) (Fin 79.8) (Fin 5) (Fin 90) = Inr v
          \<and> check_boundary_distance (Fin 9) (Fin 79.8) (boundary_line GEOFENCE_CONFIG)
              = Inr (distance v)
          \<and> py_le (Fin 0) (distance v)
          \<and> (\<exists>dv. haversine (Fin 9) (Fin 79.8) (Fin (lat (pt 8.9 79.7))) (Fin (lng (pt 8.9 79.7)))
                     = Inr dv \<and> \<not> py_lt dv (distance v)))"
proof -
  have ne: "boundary_line GEOFENCE_CONFIG \<noteq> []" by (simp add: GEOFENCE_CONFIG_def)
  have p: "pt 8.9 79.7 \<in> set (boundary_line GEOFENCE_CONFIG)"
    by (simp add: GEOFENCE_CONFIG_def)
  have "\<exists>v. analyze_boat_data (\<lparr>model = None, scaler = None\<rparr> :: unit classifier_globals)
            GEOFENCE_CONFIG (Fin 9) (Fin 79.8) (Fin 5) (Fin 90) = Inr v"
    unfolding analyze_boat_data_def center_status by (simp add: SAFE_def)
  then obtain v where v: "analyze_boat_data (\<lparr>model = None, scaler = None\<rparr> :: unit classifier_globals)
            GEOFENCE_CONFIG (Fin 9) (Fin 79.8) (Fin 5) (Fin 90) = Inr v"
    by blast
  note r = returned_distance_is_vertex_minimum [OF ne v]
  show ?thesis using r ne p v by blast
qed

text \<open>
  The claim as it was stated (for every observation) fails for a NaN latitude: every vertex
  distance is NaN, no comparison succeeds, and the distance returned is the initial
  infinity, which is the distance of no vertex.
\<close>

theorem nan_distance_not_vertex_minimum:
  "check_boundary_distance NaN (Fin 79.8) (boundary_line GEOFENCE_CONFIG) = Inr PInf
   \<and> haversine NaN (Fin 79.8) (Fin 10.05) (Fin 80.03) = Inr NaN
   \<and> haversine NaN (Fin 79.8) (Fin 9.5) (Fin 79.9) = Inr NaN
   \<and> haversine NaN (Fin 79.8) (Fin 9.22) (Fin 79.8) = Inr NaN
   \<and> haversine NaN (Fin 79.8) (Fin 8.9) (Fin 79.7) = Inr NaN
   \<and> haversine NaN (Fin 79.8) (Fin 8.2) (Fin 79.35) = Inr NaN
   \<and> map_sum id distance
       (analyze_boat_data (\<lparr>model = None, scaler = None\<rparr> :: unit classifier_globals)
          GEOFENCE_CONFIG NaN (Fin 79.8) (Fin 0) (Fin 0)) = Inr PInf"
  by (simp add: haversine_NaN_lat check_boundary_distance_def GEOFENCE_CONFIG_def pt_def
        analyze_boat_data_def check_geofence_status_def)

text \<open>
  C8. The haversine distance is symmetric in its two points, for all arguments (also the
  infinities and NaN, where both calls raise the same error or both return NaN).
\<close>

theorem haversine_symmetric:
  "haversine lat1 lon1 lat2 lon2 = haversine lat2 lon2 lat1 lon1"
  unfolding haversine_alt
  unfolding sq_sin_swap [of "radians lat2" "radians lat1"]
    sq_sin_swap [of "radians lon2" "radians lon1"]
  by (auto simp add: py_mul_commute split: sum.splits)

text \<open>
  C9. Two observations with the same latitude and longitude get the same zone status and
  the same distance (or raise the same error), whatever their speed and direction.
\<close>

theorem zone_independent_of_speed_direction:
  "map_sum id (\<lambda>v. (zone_status v, distance v)) (analyze_boat_data g cfg la lo s dir)
 = map_sum id (\<lambda>v. (zone_status v, distance v)) (analyze_boat_data g cfg la lo s' dir')"
  by (simp add: analyze_boat_data_def Let_def split: sum.splits prod.splits)

text \<open>
  C10. If the model or the scaler is missing, \<open>analyze_boat_data\<close> returns what it returns
  with no classifier at all; in particular every SAFE verdict then has \<open>is_suspicious\<close>
  false and no model prediction.
\<close>

theorem classifier_needs_model_and_scaler:
  assumes "model g = None \<or> scaler g = None"
  shows "analyze_boat_data g cfg la lo s dir
         = analyze_boat_data \<lparr>model = None, scaler = None\<rparr> cfg la lo s dir
       \<and> (\<forall>v. analyze_boat_data g cfg la lo s dir = Inr v \<longrightarrow> zone_status v = SAFE \<longrightarrow>
             \<not> is_suspicious v \<and> model_prediction v = None)"
  using assms
  by (auto simp add: analyze_boat_data_def Let_def SAFE_def
           split: sum.splits prod.splits if_splits)

theorem classifier_needs_model_and_scaler_witness:
  "\<exists>v. analyze_boat_data \<lparr>model = Some (\<lambda>x::pyfloat list. Inr 1), scaler = None\<rparr>
          GEOFENCE_CONFIG (Fin 9) (Fin 79.8) (Fin 5) (Fin 90) = Inr v
       \<and> analyze_boat_data \<lparr>model = None, scaler = None\<rparr>
          GEOFENCE_CONFIG (Fin 9) (Fin 79.8) (Fin 5) (Fin 90) = Inr v
       \<and> zone_status v = SAFE \<and> \<not> is_suspicious v \<and> model_prediction v = None"
proof -
  let ?g = "\<lparr>model = Some (\<lambda>x::pyfloat list. (Inr 1 :: error + int)), scaler = None\<rparr>"
  have h: "model ?g = None \<or> scaler ?g = None" by simp
  have "\<exists>v. analyze_boat_data ?g GEOFENCE_CONFIG (Fin 9) (Fin 79.8) (Fin 5) (Fin 90) = Inr v
       \<and> zone_status v = SAFE"
    unfolding analyze_boat_data_def center_status by (simp add: SAFE_def)
  then obtain v where v: "analyze_boat_data ?g GEOFENCE_CONFIG (Fin 9) (Fin 79.8) (Fin 5) (Fin 90) = Inr v"
    and z: "zone_status v = SAFE"
    by blast
  note c = classifier_needs_model_and_scaler
      [OF h, of GEOFENCE_CONFIG "Fin 9" "Fin 79.8" "Fin 5" "Fin 90"]
  from c have e: "analyze_boat_data ?g GEOFENCE_CONFIG (Fin 9) (Fin 79.8) (Fin 5) (Fin 90)
      = analyze_boat_data \<lparr>model = None, scaler = None\<rparr>
          GEOFENCE_CONFIG (Fin 9) (Fin 79.8) (Fin 5) (Fin 90)"
    by blast
  from c v z have n: "\<not> is_suspicious v \<and> model_prediction v = None" by blast
  have v': "analyze_boat_data \<lparr>model = None, scaler = None\<rparr>
          GEOFENCE_CONFIG (Fin 9) (Fin 79.8) (Fin 5) (Fin 90) = Inr v"
    by (rule trans [OF e [symmetric] v])
  show ?thesis using v v' z n by blast
qed

end
